theory Spec2Isabelle
  imports Main "HOL-Library.Word"
begin

unbundle bit_operations_syntax

section \<open>Data of the face-recognition server\<close>

text \<open>
  The server (\<^verbatim>\<open>server.py\<close>) is one Socket.IO event handler,
  \<^verbatim>\<open>handle_identify_face(sid, base64_image)\<close>, with two lifecycle handlers that only
  print. The payload is text: a Python \<^verbatim>\<open>str\<close>, held here as its UTF-8 bytes (a
  \<^typ>\<open>string\<close>); the comma and the base64 alphabet are ASCII, so splitting and decoding
  read the same on bytes as on code points, and a byte above 127 marks a non-ASCII
  character. A session id is the transport's string.
\<close>

type_synonym sid = string
type_synonym byte = "8 word"

text \<open>A JSON object as sent on the wire: its keys in order.\<close>

type_synonym dict = "(string \<times> string) list"

text \<open>
  The exceptions the handler can meet. \<^verbatim>\<open>binascii.Error\<close> is a \<^verbatim>\<open>ValueError\<close>;
  \<^verbatim>\<open>cv2.error\<close>, \<^verbatim>\<open>KeyError\<close> and \<^verbatim>\<open>ValueError\<close> derive from
  \<^verbatim>\<open>Exception\<close>; \<^verbatim>\<open>KeyboardInterrupt\<close> derives from \<^verbatim>\<open>BaseException\<close> only, so
  \<^verbatim>\<open>except Exception\<close> lets it through.
\<close>

datatype py_error = ValueError | BinasciiError | CvError | KeyError | KeyboardInterrupt

fun is_Exception :: "py_error \<Rightarrow> bool" where
  "is_Exception KeyboardInterrupt = False"
| "is_Exception _ = True"

text \<open>
  What a handler does to the outside, in order. The texts of the \<^verbatim>\<open>print\<close> calls are
  kept as tags with the values they interpolate; \<^verbatim>\<open>asyncio.sleep(0.5)\<close> is
  \<open>Sleep 500\<close>, in milliseconds; \<^verbatim>\<open>sio.emit(event, data, to=sid)\<close> is
  \<open>Emit event data sid\<close>, with \<open>None\<close> for a call without data.
\<close>

datatype log =
    Connected sid
  | Disconnected sid
  | Received sid
  | DecodeFailed sid
  | SuccessSent sid string
  | Failed py_error

datatype effect = Print log | Sleep nat | Emit string "dict option" sid

text \<open>
  A computation yields the effects it performed and then a value or the exception it
  raised: effects performed before a raise stay performed.
\<close>

type_synonym 'a run = "effect list \<times> (py_error + 'a)"

definition perform :: "effect \<Rightarrow> unit run" where
  "perform x = ([x], Inr ())"

definition lift :: "py_error + 'a \<Rightarrow> 'a run" where
  "lift r = ([], r)"

definition bind :: "'a run \<Rightarrow> ('a \<Rightarrow> 'b run) \<Rightarrow> 'b run" where
  "bind m f =
     (case m of
        (es, Inl e) \<Rightarrow> (es, Inl e)
      | (es, Inr v) \<Rightarrow> (case f v of (es', r) \<Rightarrow> (es @ es', r)))"

definition seq :: "unit run \<Rightarrow> 'b run \<Rightarrow> 'b run" where
  "seq m k = bind m (\<lambda>_. k)"

text \<open>
  \<^verbatim>\<open>try: body  except Exception as e: handler(e)\<close>: an exception of class
  \<^verbatim>\<open>Exception\<close> runs the handler, any other one propagates.
\<close>

definition try_except :: "'a run \<Rightarrow> (py_error \<Rightarrow> 'a run) \<Rightarrow> 'a run" where
  "try_except body handler =
     (case body of
        (es, Inl e) \<Rightarrow>
          (if is_Exception e then (case handler e of (es', r) \<Rightarrow> (es @ es', r))
           else (es, Inl e))
      | (es, Inr v) \<Rightarrow> (es, Inr v))"

text \<open>The calls to \<^verbatim>\<open>sio.emit\<close> among some effects: event name, data, addressee.\<close>

fun emissions :: "effect list \<Rightarrow> (string \<times> dict option \<times> sid) list" where
  "emissions [] = []"
| "emissions (Emit ev d to # es) = (ev, d, to) # emissions es"
| "emissions (_ # es) = emissions es"

section \<open>The payload: header split and base64\<close>

text \<open>
  \<^verbatim>\<open>s.split(sep, 1)\<close>: one piece when the separator is absent, otherwise the text
  before the first separator and all the text after it.
\<close>

definition split1 :: "char \<Rightarrow> string \<Rightarrow> string list" where
  "split1 sep s =
     (case dropWhile (\<lambda>c. c \<noteq> sep) s of
        [] \<Rightarrow> [s]
      | _ # rest \<Rightarrow> [takeWhile (\<lambda>c. c \<noteq> sep) s, rest])"

text \<open>\<^verbatim>\<open>a, b = xs\<close> raises \<^verbatim>\<open>ValueError\<close> unless \<open>xs\<close> has two items.\<close>

fun unpack2 :: "'a list \<Rightarrow> py_error + ('a \<times> 'a)" where
  "unpack2 [a, b] = Inr (a, b)"
| "unpack2 _ = Inl ValueError"

text \<open>
  Lines 69 to 72 of the handler:
  \<^verbatim>\<open>
  if ',' in base64_image:
      header, base64_data = base64_image.split(',', 1)
  else:
      base64_data = base64_image
  \<close>
\<close>

definition payload_data :: "string \<Rightarrow> py_error + string" where
  "payload_data base64_image =
     (if CHR '','' \<in> set base64_image then
        (case unpack2 (split1 CHR '','' base64_image) of
           Inl e \<Rightarrow> Inl e
         | Inr (header, base64_data) \<Rightarrow> Inr base64_data)
      else Inr base64_image)"

text \<open>
  \<^verbatim>\<open>base64.b64decode(s)\<close> with its defaults (no alternative alphabet,
  \<^verbatim>\<open>validate=False\<close>) is library code, followed here from CPython 3.11: a
  \<^verbatim>\<open>str\<close> is first encoded as ASCII (\<^verbatim>\<open>ValueError\<close> otherwise), then
  \<^verbatim>\<open>binascii.a2b_base64\<close> runs in its lenient mode: characters outside the alphabet
  are skipped, a pad character ends the input once it completes a quad, and leftover
  characters of an unfinished quad raise \<^verbatim>\<open>binascii.Error\<close>.
\<close>

definition table_a2b_base64 :: "char \<Rightarrow> nat option" where
  "table_a2b_base64 c =
     (let n = (of_char c :: nat) in
      if 65 \<le> n \<and> n \<le> 90 then Some (n - 65)
      else if 97 \<le> n \<and> n \<le> 122 then Some (n - 71)
      else if 48 \<le> n \<and> n \<le> 57 then Some (n + 4)
      else if n = 43 then Some 62
      else if n = 47 then Some 63
      else None)"

fun a2b_base64 :: "string \<Rightarrow> nat \<Rightarrow> byte \<Rightarrow> nat \<Rightarrow> byte list \<Rightarrow> py_error + byte list" where
  "a2b_base64 [] quad_pos leftchar pads bin_data =
     (if quad_pos \<noteq> 0 then Inl BinasciiError else Inr bin_data)"
| "a2b_base64 (c # cs) quad_pos leftchar pads bin_data =
     (if c = CHR ''='' then
        (if 2 \<le> quad_pos \<and> 4 \<le> quad_pos + (pads + 1) then Inr bin_data
         else a2b_base64 cs quad_pos leftchar
                (if 2 \<le> quad_pos then pads + 1 else pads) bin_data)
      else
        (case table_a2b_base64 c of
           None \<Rightarrow> a2b_base64 cs quad_pos leftchar pads bin_data
         | Some v \<Rightarrow>
             (let this_ch = (of_nat v :: byte) in
              if quad_pos = 0 then a2b_base64 cs 1 this_ch 0 bin_data
              else if quad_pos = 1 then
                a2b_base64 cs 2 (this_ch AND 0x0f) 0
                  (bin_data @ [push_bit 2 leftchar OR drop_bit 4 this_ch])
              else if quad_pos = 2 then
                a2b_base64 cs 3 (this_ch AND 0x03) 0
                  (bin_data @ [push_bit 4 leftchar OR drop_bit 2 this_ch])
              else
                a2b_base64 cs 0 0 0 (bin_data @ [push_bit 6 leftchar OR this_ch]))))"

definition b64decode :: "string \<Rightarrow> py_error + byte list" where
  "b64decode s =
     (if \<exists>c \<in> set s. 128 \<le> (of_char c :: nat) then Inl ValueError
      else a2b_base64 s 0 0 0 [])"

section \<open>The handler\<close>

text \<open>
  \<^verbatim>\<open>np.frombuffer(img_data, np.uint8)\<close> views the bytes as an array of unsigned
  bytes; nothing is copied or changed.
\<close>

definition frombuffer :: "byte list \<Rightarrow> byte list" where
  "frombuffer img_data = img_data"

text \<open>\<^verbatim>\<open>d[k]\<close> on a dictionary raises \<^verbatim>\<open>KeyError\<close> for a missing key.\<close>

definition getitem :: "dict \<Rightarrow> string \<Rightarrow> py_error + string" where
  "getitem d k = (case map_of d k of None \<Rightarrow> Inl KeyError | Some v \<Rightarrow> Inr v)"

text \<open>
  The literal \<^verbatim>\<open>{"id": "p123", "name": ...}\<close> of line 84; the name is three Hangul
  syllables (U+AE40, U+CCA0, U+C218), here in UTF-8.
\<close>

definition user :: dict where
  "user =
     [(''id'', ''p123''),
      (''name'',
       [CHR 0xEA, CHR 0xB9, CHR 0x80, CHR 0xEC, CHR 0xB2, CHR 0xA0, CHR 0xEC, CHR 0x88, CHR 0x98])]"

text \<open>
  \<^verbatim>\<open>cv2.imdecode(nparr, cv2.IMREAD_COLOR)\<close> is OpenCV's and is a parameter of the
  handler: from a buffer it gives an image, \<^verbatim>\<open>None\<close>, or raises. The image type is
  left open.

  \<^verbatim>\<open>handle_identify_face\<close>, lines 57 to 92: the first \<^verbatim>\<open>print\<close> stands before the
  \<^verbatim>\<open>try\<close>; the \<^verbatim>\<open>return\<close> of line 80 ends the handler inside it.
\<close>

definition handle_identify_face ::
  "(byte list \<Rightarrow> py_error + 'img option) \<Rightarrow> sid \<Rightarrow> string \<Rightarrow> unit run" where
  "handle_identify_face imdecode sid base64_image =
     seq (perform (Print (Received sid)))
       (try_except
          (bind (lift (payload_data base64_image)) (\<lambda>base64_data.
           bind (lift (b64decode base64_data)) (\<lambda>img_data.
           bind (lift (imdecode (frombuffer img_data))) (\<lambda>img.
             case img of
               None \<Rightarrow> perform (Print (DecodeFailed sid))
             | Some _ \<Rightarrow>
                 seq (perform (Sleep 500))
                (seq (perform (Emit ''auth-success'' (Some user) sid))
                (bind (lift (getitem user ''name'')) (\<lambda>name.
                   perform (Print (SuccessSent sid name)))))))))
          (\<lambda>e. seq (perform (Print (Failed e)))
                    (perform (Emit ''auth-fail'' None sid))))"

text \<open>Lines 49 to 55: both lifecycle handlers print and do nothing else.\<close>

definition connect :: "sid \<Rightarrow> unit run" where
  "connect sid = perform (Print (Connected sid))"

definition disconnect :: "sid \<Rightarrow> unit run" where
  "disconnect sid = perform (Print (Disconnected sid))"

section \<open>The event loop\<close>

text \<open>
  Socket.IO starts each handler as a task of one cooperative event loop. A task runs
  without interruption until it awaits the sleep; the loop then keeps it with the
  effects it has yet to perform, and resumes it when its timer fires. All timers have the
  same delay, so they fire in the order they were set. The server keeps no state of its
  own: no table of sessions, no flag for a call in flight.
\<close>

record loop =
  performed :: "effect list"
  sleeping :: "(sid \<times> unit run) list"
  crashed :: "py_error list"

definition start :: loop where
  "start = \<lparr>performed = [], sleeping = [], crashed = []\<rparr>"

fun until_sleep :: "effect list \<Rightarrow> effect list \<times> effect list option" where
  "until_sleep [] = ([], None)"
| "until_sleep (Sleep ms # es) = ([], Some es)"
| "until_sleep (e # es) = (case until_sleep es of (now, later) \<Rightarrow> (e # now, later))"

text \<open>
  Running a task up to its next sleep, or to its end; an exception that escapes the
  handler ends the task and is recorded.
\<close>

definition advance :: "sid \<Rightarrow> unit run \<Rightarrow> loop \<Rightarrow> loop" where
  "advance sid task st =
     (case task of (es, outcome) \<Rightarrow>
        (case until_sleep es of
           (now, Some later) \<Rightarrow>
             st\<lparr>performed := performed st @ now,
                sleeping := sleeping st @ [(sid, (later, outcome))]\<rparr>
         | (now, None) \<Rightarrow>
             st\<lparr>performed := performed st @ now,
                crashed := (case outcome of Inl e \<Rightarrow> crashed st @ [e] | Inr _ \<Rightarrow> crashed st)\<rparr>))"

datatype happening = Connect sid | Disconnect sid | IdentifyFace sid string | Wake

fun step :: "(byte list \<Rightarrow> py_error + 'img option) \<Rightarrow> loop \<Rightarrow> happening \<Rightarrow> loop" where
  "step imdecode st (Connect sid) = advance sid (connect sid) st"
| "step imdecode st (Disconnect sid) = advance sid (disconnect sid) st"
| "step imdecode st (IdentifyFace sid base64_image) =
     advance sid (handle_identify_face imdecode sid base64_image) st"
| "step imdecode st Wake =
     (case sleeping st of
        [] \<Rightarrow> st
      | (sid, task) # rest \<Rightarrow> advance sid task (st\<lparr>sleeping := rest\<rparr>))"

definition run_loop :: "(byte list \<Rightarrow> py_error + 'img option) \<Rightarrow> happening list \<Rightarrow> loop \<Rightarrow> loop" where
  "run_loop imdecode hs st = foldl (step imdecode) st hs"

text \<open>
  A stand-in for the image decoder in the examples below: a buffer is an image when it
  begins with the JPEG start-of-image marker.
\<close>

definition jpeg_marker_decoder :: "byte list \<Rightarrow> py_error + unit option" where
  "jpeg_marker_decoder buf =
     (if take 3 buf = [0xFF, 0xD8, 0xFF] then Inr (Some ()) else Inr None)"

text \<open>
  A second stand-in, for what OpenCV does with an empty buffer: its \<^verbatim>\<open>imdecode_\<close>
  begins with \<^verbatim>\<open>CV_Assert(!buf.empty())\<close>, which reaches Python as
  \<^verbatim>\<open>cv2.error\<close>. On any other buffer it reads the marker.
\<close>

definition asserting_decoder :: "byte list \<Rightarrow> py_error + unit option" where
  "asserting_decoder buf = (if buf = [] then Inl CvError else jpeg_marker_decoder buf)"

section \<open>Facts about the parts\<close>

lemma emissions_append: "emissions (xs @ ys) = emissions xs @ emissions ys"
  by (induction xs rule: emissions.induct) simp_all

lemma dropWhile_first: "sep \<notin> set header \<Longrightarrow> dropWhile (\<lambda>c. c \<noteq> sep) (header @ sep # data) = sep # data"
  by (induction header) auto

lemma takeWhile_first: "sep \<notin> set header \<Longrightarrow> takeWhile (\<lambda>c. c \<noteq> sep) (header @ sep # data) = header"
  by (induction header) auto

lemma split1_first: "sep \<notin> set header \<Longrightarrow> split1 sep (header @ sep # data) = [header, data]"
  by (simp add: split1_def dropWhile_first takeWhile_first)

lemma payload_data_header:
  "CHR '','' \<notin> set header \<Longrightarrow> payload_data (header @ CHR '','' # data) = Inr data"
  by (simp add: payload_data_def split1_first)

lemma payload_data_plain: "CHR '','' \<notin> set s \<Longrightarrow> payload_data s = Inr s"
  by (simp add: payload_data_def)

lemma payload_data_total: "\<exists>d. payload_data s = Inr d"
proof (cases "CHR '','' \<in> set s")
  case True
  then obtain header data where "s = header @ CHR '','' # data" "CHR '','' \<notin> set header"
    by (meson split_list_first)
  then show ?thesis by (simp add: payload_data_header)
next
  case False
  then show ?thesis by (simp add: payload_data_plain)
qed

lemma a2b_base64_error: "a2b_base64 s q l p out = Inl e \<Longrightarrow> e = BinasciiError"
  by (induction s arbitrary: q l p out) (auto simp: Let_def split: if_splits option.splits)

lemma b64decode_error: "b64decode d = Inl e \<Longrightarrow> e = ValueError \<or> e = BinasciiError"
  by (auto simp: b64decode_def split: if_splits dest: a2b_base64_error)

lemma b64decode_is_Exception: "b64decode d = Inl e \<Longrightarrow> is_Exception e"
  by (auto dest: b64decode_error)

lemmas run_defs =
  handle_identify_face_def seq_def bind_def try_except_def lift_def perform_def getitem_def
  user_def

text \<open>The four ways through the handler.\<close>

lemma handle_valid:
  "payload_data s = Inr d \<Longrightarrow> b64decode d = Inr buf \<Longrightarrow>
   imdecode (frombuffer buf) = Inr (Some img) \<Longrightarrow>
   handle_identify_face imdecode sid s =
     ([Print (Received sid), Sleep 500, Emit ''auth-success'' (Some user) sid,
       Print (SuccessSent sid (snd (user ! 1)))], Inr ())"
  by (simp add: run_defs)

lemma handle_no_image:
  "payload_data s = Inr d \<Longrightarrow> b64decode d = Inr buf \<Longrightarrow>
   imdecode (frombuffer buf) = Inr None \<Longrightarrow>
   handle_identify_face imdecode sid s =
     ([Print (Received sid), Print (DecodeFailed sid)], Inr ())"
  by (simp add: run_defs)

lemma handle_b64_error:
  "payload_data s = Inr d \<Longrightarrow> b64decode d = Inl e \<Longrightarrow>
   handle_identify_face imdecode sid s =
     ([Print (Received sid), Print (Failed e), Emit ''auth-fail'' None sid], Inr ())"
  by (frule b64decode_is_Exception) (simp add: run_defs)

lemma handle_imdecode_error:
  "payload_data s = Inr d \<Longrightarrow> b64decode d = Inr buf \<Longrightarrow>
   imdecode (frombuffer buf) = Inl e \<Longrightarrow>
   handle_identify_face imdecode sid s =
     (if is_Exception e
      then ([Print (Received sid), Print (Failed e), Emit ''auth-fail'' None sid], Inr ())
      else ([Print (Received sid)], Inl e))"
  by (simp add: run_defs)

lemma handle_outcomes:
  assumes "\<forall>buf e. imdecode buf = Inl e \<longrightarrow> is_Exception e"
  shows "snd (handle_identify_face imdecode sid s) = Inr () \<and>
         (emissions (fst (handle_identify_face imdecode sid s)) = [] \<or>
          emissions (fst (handle_identify_face imdecode sid s)) = [(''auth-fail'', None, sid)] \<or>
          emissions (fst (handle_identify_face imdecode sid s)) =
            [(''auth-success'', Some user, sid)])"
proof -
  obtain d where d: "payload_data s = Inr d"
    using payload_data_total by blast
  show ?thesis
  proof (cases "b64decode d")
    case (Inl e)
    with d show ?thesis by (simp add: handle_b64_error)
  next
    case (Inr buf)
    show ?thesis
    proof (cases "imdecode (frombuffer buf)")
      case (Inl e)
      with assms have "is_Exception e" by blast
      with d Inr Inl show ?thesis by (simp add: handle_imdecode_error)
    next
      case img: (Inr img)
      show ?thesis
      proof (cases img)
        case None
        with d Inr img show ?thesis by (simp add: handle_no_image)
      next
        case (Some a)
        with d Inr img show ?thesis by (simp add: handle_valid)
      qed
    qed
  qed
qed

text \<open>The loop: a task that ends well leaves no crash behind, whenever it runs.\<close>

definition healthy :: "loop \<Rightarrow> bool" where
  "healthy st \<longleftrightarrow> crashed st = [] \<and> (\<forall>t \<in> set (sleeping st). snd (snd t) = Inr ())"

lemma advance_healthy: "healthy st \<Longrightarrow> snd task = Inr () \<Longrightarrow> healthy (advance sid task st)"
  by (cases task) (auto simp: healthy_def advance_def split: prod.splits option.splits)

lemma step_healthy:
  assumes "\<forall>buf e. imdecode buf = Inl e \<longrightarrow> is_Exception e" and "healthy st"
  shows "healthy (step imdecode st h)"
proof (cases h)
  case (Connect sid)
  with assms(2) show ?thesis by (simp add: advance_healthy connect_def perform_def)
next
  case (Disconnect sid)
  with assms(2) show ?thesis by (simp add: advance_healthy disconnect_def perform_def)
next
  case (IdentifyFace sid s)
  with assms(2) handle_outcomes [OF assms(1)] show ?thesis by (simp add: advance_healthy)
next
  case Wake
  show ?thesis
  proof (cases "sleeping st")
    case Nil
    with Wake assms(2) show ?thesis by simp
  next
    case (Cons t rest)
    obtain sid task where t: "t = (sid, task)" by (cases t)
    from assms(2) Cons t have "snd task = Inr ()" and "healthy (st\<lparr>sleeping := rest\<rparr>)"
      by (auto simp: healthy_def)
    with Wake Cons t show ?thesis by (simp add: advance_healthy)
  qed
qed

lemma run_loop_healthy:
  assumes "\<forall>buf e. imdecode buf = Inl e \<longrightarrow> is_Exception e"
  shows "healthy st \<Longrightarrow> healthy (run_loop imdecode hs st)"
  unfolding run_loop_def
  by (induction hs arbitrary: st) (simp_all add: step_healthy [OF assms])

text \<open>Two sample payloads: a data URL and a bare base64 text, both JPEG headers.\<close>

lemma sample_payload_data:
  "payload_data ''data:image/jpeg;base64,/9j/4AAQ'' = Inr ''/9j/4AAQ''"
  by code_simp

lemma sample_b64decode: "b64decode ''/9j/4AAQ'' = Inr [0xFF, 0xD8, 0xFF, 0xE0, 0x00, 0x10]"
  by code_simp

lemma sample_imdecode:
  "jpeg_marker_decoder (frombuffer [0xFF, 0xD8, 0xFF, 0xE0, 0x00, 0x10]) = Inr (Some ())"
  by (simp add: jpeg_marker_decoder_def frombuffer_def)

lemma sample_handle:
  "handle_identify_face jpeg_marker_decoder sid ''data:image/jpeg;base64,/9j/4AAQ'' =
     ([Print (Received sid), Sleep 500, Emit ''auth-success'' (Some user) sid,
       Print (SuccessSent sid (snd (user ! 1)))], Inr ())"
  by (rule handle_valid
      [where imdecode = jpeg_marker_decoder, OF sample_payload_data sample_b64decode sample_imdecode])

lemma sample2_payload_data: "payload_data ''/9j/2wBD'' = Inr ''/9j/2wBD''"
  by code_simp

lemma sample2_b64decode: "b64decode ''/9j/2wBD'' = Inr [0xFF, 0xD8, 0xFF, 0xDB, 0x00, 0x43]"
  by code_simp

lemma sample2_imdecode:
  "jpeg_marker_decoder (frombuffer [0xFF, 0xD8, 0xFF, 0xDB, 0x00, 0x43]) = Inr (Some ())"
  by (simp add: jpeg_marker_decoder_def frombuffer_def)

lemma sample2_handle:
  "handle_identify_face jpeg_marker_decoder sid ''/9j/2wBD'' =
     ([Print (Received sid), Sleep 500, Emit ''auth-success'' (Some user) sid,
       Print (SuccessSent sid (snd (user ! 1)))], Inr ())"
  by (rule handle_valid
      [where imdecode = jpeg_marker_decoder,
       OF sample2_payload_data sample2_b64decode sample2_imdecode])

lemma empty_b64decode: "b64decode '''' = Inr []"
  by (simp add: b64decode_def)

lemma empty_payload_data: "payload_data '''' = Inr ''''"
  by (simp add: payload_data_plain)

lemma header_only_payload_data: "payload_data ''data:image/jpeg;base64,'' = Inr ''''"
  by code_simp

lemma empty_asserting_decoder: "asserting_decoder (frombuffer []) = Inl CvError"
  by (simp add: asserting_decoder_def frombuffer_def)

lemma asserting_decoder_raises_Exception:
  "\<forall>buf e. asserting_decoder buf = Inl e \<longrightarrow> is_Exception e"
  by (simp add: asserting_decoder_def jpeg_marker_decoder_def)

lemma bad_payload_data: "payload_data ''not-valid-base64!!'' = Inr ''not-valid-base64!!''"
  by code_simp

lemma bad_b64decode: "b64decode ''not-valid-base64!!'' = Inl BinasciiError"
  by code_simp

section \<open>The claims\<close>

text \<open>
  C1. For every inbound identify-face event whose payload decodes to a valid image, the
  handler emits exactly one outbound terminal event, addressed to the originating
  session, and that event is auth-success or auth-fail: never none, never two. The
  handler ends without an exception.
\<close>

theorem exactly_one_terminal_event:
  assumes "payload_data s = Inr d" and "b64decode d = Inr buf"
    and "imdecode (frombuffer buf) = Inr (Some img)"
  shows "snd (handle_identify_face imdecode sid s) = Inr () \<and>
         length (emissions (fst (handle_identify_face imdecode sid s))) = 1 \<and>
         (\<exists>ev data. emissions (fst (handle_identify_face imdecode sid s)) = [(ev, data, sid)] \<and>
            (ev = ''auth-success'' \<or> ev = ''auth-fail''))"
  using assms by (simp add: handle_valid)

theorem exactly_one_terminal_event_witness:
  "length (emissions (fst (handle_identify_face jpeg_marker_decoder ''s1''
      ''data:image/jpeg;base64,/9j/4AAQ''))) = 1"
  using exactly_one_terminal_event
    [where imdecode = jpeg_marker_decoder, OF sample_payload_data sample_b64decode sample_imdecode]
  by simp

text \<open>
  C2, as the specification states it: a payload whose base64 text is malformed is
  dropped silently, with no outbound event. The handler does otherwise: the decoder's
  exception is caught by the \<^verbatim>\<open>except\<close> clause, which emits auth-fail. The text
  \<^verbatim>\<open>not-valid-base64!!\<close> has fourteen characters of the alphabet, an unfinished quad.
\<close>

theorem bad_base64_not_silent:
  "b64decode ''not-valid-base64!!'' = Inl BinasciiError \<and>
   emissions (fst (handle_identify_face jpeg_marker_decoder ''s1'' ''not-valid-base64!!'')) =
     [(''auth-fail'', None, ''s1'')]"
  by (simp add: bad_b64decode handle_b64_error [OF bad_payload_data bad_b64decode])

text \<open>
  C2, amended: for every inbound identify-face event whose payload data makes the base64
  decoder raise, the handler logs the error and emits exactly one auth-fail event, without
  data, to the originating session; it emits no auth-success and ends without an
  exception.
\<close>

theorem bad_base64_emits_auth_fail:
  assumes "payload_data s = Inr d" and "b64decode d = Inl e"
  shows "handle_identify_face imdecode sid s =
           ([Print (Received sid), Print (Failed e), Emit ''auth-fail'' None sid], Inr ()) \<and>
         emissions (fst (handle_identify_face imdecode sid s)) = [(''auth-fail'', None, sid)]"
  using assms by (simp add: handle_b64_error)

theorem bad_base64_emits_auth_fail_witness:
  "handle_identify_face jpeg_marker_decoder ''s1'' ''not-valid-base64!!'' =
     ([Print (Received ''s1''), Print (Failed BinasciiError), Emit ''auth-fail'' None ''s1''],
      Inr ())"
  using bad_base64_emits_auth_fail
    [OF bad_payload_data bad_b64decode, where imdecode = jpeg_marker_decoder and sid = "''s1''"]
  by simp

text \<open>
  C3, as the specification states it: a second identify-face event on a session whose
  recognition call is still outstanding is rejected with an immediate auth-fail, so that a
  session never has two calls outstanding. The handler has no such guard: after two
  events in a row on session \<^verbatim>\<open>s1\<close>, two tasks of that session sleep and nothing has
  been emitted.
\<close>

theorem second_event_not_rejected:
  "map fst (sleeping (run_loop jpeg_marker_decoder
      [IdentifyFace ''s1'' ''data:image/jpeg;base64,/9j/4AAQ'',
       IdentifyFace ''s1'' ''/9j/2wBD''] start)) = [''s1'', ''s1''] \<and>
   emissions (performed (run_loop jpeg_marker_decoder
      [IdentifyFace ''s1'' ''data:image/jpeg;base64,/9j/4AAQ'',
       IdentifyFace ''s1'' ''/9j/2wBD''] start)) = []"
  by (simp add: run_loop_def start_def advance_def sample_handle sample2_handle)

text \<open>
  C3, amended: an identify-face event that carries a valid image is handled the same way
  whatever is outstanding, also for its own session: nothing is emitted at once (no busy
  auth-fail), and one more recognition call of that session becomes outstanding, which
  will emit auth-success when it wakes. A session can so have several calls outstanding
  at once.
\<close>

theorem second_event_starts_second_cycle:
  assumes "payload_data s = Inr d" and "b64decode d = Inr buf"
    and "imdecode (frombuffer buf) = Inr (Some img)"
  shows "emissions (performed (step imdecode st (IdentifyFace sid s))) =
           emissions (performed st) \<and>
         map fst (sleeping (step imdecode st (IdentifyFace sid s))) =
           map fst (sleeping st) @ [sid] \<and>
         map (\<lambda>t. emissions (fst (snd t))) (sleeping (step imdecode st (IdentifyFace sid s))) =
           map (\<lambda>t. emissions (fst (snd t))) (sleeping st) @
             [[(''auth-success'', Some user, sid)]]"
  using assms by (simp add: handle_valid advance_def emissions_append)

theorem second_event_starts_second_cycle_witness:
  "map fst (sleeping (step jpeg_marker_decoder
      (step jpeg_marker_decoder start (IdentifyFace ''s1'' ''/9j/2wBD''))
      (IdentifyFace ''s1'' ''data:image/jpeg;base64,/9j/4AAQ''))) = [''s1'', ''s1'']"
  using second_event_starts_second_cycle
    [where imdecode = jpeg_marker_decoder and sid = "''s1''"
       and st = "step jpeg_marker_decoder start (IdentifyFace ''s1'' ''/9j/2wBD'')",
     OF sample_payload_data sample_b64decode sample_imdecode]
  by (simp add: start_def advance_def sample2_handle)

text \<open>
  C4, as the specification states it: when a session disconnects while its recognition
  call is outstanding, the result is discarded and no reply is attempted. The handler does
  otherwise: the disconnect handler only prints, and the sleeping task still calls emit for
  the session once it wakes.
\<close>

theorem emit_after_disconnect:
  "performed (run_loop jpeg_marker_decoder
      [IdentifyFace ''s1'' ''data:image/jpeg;base64,/9j/4AAQ'', Disconnect ''s1''] start) =
     [Print (Received ''s1''), Print (Disconnected ''s1'')] \<and>
   emissions (performed (run_loop jpeg_marker_decoder
      [IdentifyFace ''s1'' ''data:image/jpeg;base64,/9j/4AAQ'', Disconnect ''s1'', Wake] start)) =
     [(''auth-success'', Some user, ''s1'')]"
  by (simp add: run_loop_def start_def advance_def disconnect_def perform_def sample_handle)

text \<open>
  C4, amended: a disconnect cancels nothing. The disconnect handler prints one line and
  leaves every outstanding call as it is; a call of the disconnected session that carries a
  valid image still calls emit with auth-success, addressed to that session id, once its
  latency has passed (what the transport does with an event for a closed session is not
  the server's code). No exception is raised on the way.
\<close>

theorem disconnect_cancels_nothing:
  assumes "payload_data s = Inr d" and "b64decode d = Inr buf"
    and "imdecode (frombuffer buf) = Inr (Some img)"
  shows "step imdecode st (Disconnect sid) =
           st\<lparr>performed := performed st @ [Print (Disconnected sid)]\<rparr> \<and>
         emissions (performed
           (run_loop imdecode [IdentifyFace sid s, Disconnect sid, Wake] start)) =
           [(''auth-success'', Some user, sid)] \<and>
         crashed (run_loop imdecode [IdentifyFace sid s, Disconnect sid, Wake] start) = []"
  using assms
  by (simp add: run_loop_def start_def advance_def disconnect_def perform_def handle_valid)

theorem disconnect_cancels_nothing_witness:
  "crashed (run_loop jpeg_marker_decoder
      [IdentifyFace ''s2'' ''/9j/2wBD'', Disconnect ''s2'', Wake] start) = [] \<and>
   emissions (performed (run_loop jpeg_marker_decoder
      [IdentifyFace ''s2'' ''/9j/2wBD'', Disconnect ''s2'', Wake] start)) =
     [(''auth-success'', Some user, ''s2'')]"
  using disconnect_cancels_nothing
    [where imdecode = jpeg_marker_decoder and sid = "''s2''",
     OF sample2_payload_data sample2_b64decode sample2_imdecode]
  by simp

text \<open>
  C5, as the specification states it: whenever the payload decodes from base64 to bytes
  that are no image, the handler drops the event silently. That fails for bytes on which
  the image decoder raises instead of returning \<^verbatim>\<open>None\<close>: a data URL with a header
  and no data decodes to the empty buffer, the decoder's assertion raises, and the
  \<^verbatim>\<open>except\<close> clause emits auth-fail.
\<close>

theorem undecodable_buffer_not_silent:
  "payload_data ''data:image/jpeg;base64,'' = Inr '''' \<and>
   b64decode '''' = Inr [] \<and>
   asserting_decoder (frombuffer []) = Inl CvError \<and>
   emissions (fst (handle_identify_face asserting_decoder ''s1'' ''data:image/jpeg;base64,'')) =
     [(''auth-fail'', None, ''s1'')]"
  by (simp add: header_only_payload_data empty_b64decode empty_asserting_decoder
      handle_imdecode_error
        [where imdecode = asserting_decoder,
         OF header_only_payload_data empty_b64decode empty_asserting_decoder])

text \<open>
  C5, amended: for every inbound identify-face event whose payload data decodes from
  base64 to bytes for which the image decoder returns no image (\<^verbatim>\<open>None\<close>), the handler
  logs the failure and returns: it emits no event, raises nothing, and in the loop leaves
  no call outstanding.
\<close>

theorem undecodable_image_silent_drop:
  assumes "payload_data s = Inr d" and "b64decode d = Inr buf"
    and "imdecode (frombuffer buf) = Inr None"
  shows "handle_identify_face imdecode sid s =
           ([Print (Received sid), Print (DecodeFailed sid)], Inr ()) \<and>
         emissions (fst (handle_identify_face imdecode sid s)) = [] \<and>
         sleeping (step imdecode st (IdentifyFace sid s)) = sleeping st \<and>
         emissions (performed (step imdecode st (IdentifyFace sid s))) =
           emissions (performed st)"
  using assms by (simp add: handle_no_image advance_def emissions_append)

lemma not_an_image_b64decode: "b64decode ''aGVsbG8='' = Inr [0x68, 0x65, 0x6C, 0x6C, 0x6F]"
  by code_simp

theorem undecodable_image_silent_drop_witness:
  "handle_identify_face jpeg_marker_decoder ''s1'' ''aGVsbG8='' =
     ([Print (Received ''s1''), Print (DecodeFailed ''s1'')], Inr ())"
proof -
  have p: "payload_data ''aGVsbG8='' = Inr ''aGVsbG8=''"
    by (simp add: payload_data_plain)
  have i: "jpeg_marker_decoder (frombuffer [0x68, 0x65, 0x6C, 0x6C, 0x6F]) = Inr None"
    by (simp add: jpeg_marker_decoder_def frombuffer_def)
  show ?thesis
    using undecodable_image_silent_drop
      [where imdecode = jpeg_marker_decoder and sid = "''s1''", OF p not_an_image_b64decode i]
    by simp
qed

text \<open>
  C6. When the payload holds a comma, the payload data is what follows the first comma
  (later commas stay in the data) and the header before it is dropped; without a comma
  the whole text is the payload data. The split never fails.
\<close>

theorem payload_after_first_comma:
  "(CHR '','' \<notin> set header \<longrightarrow> payload_data (header @ CHR '','' # data) = Inr data) \<and>
   (CHR '','' \<notin> set s \<longrightarrow> payload_data s = Inr s)"
  by (simp add: payload_data_header payload_data_plain)

theorem payload_after_first_comma_witness:
  "payload_data ''data:image/png;base64,iVBO,Rw0K'' = Inr ''iVBO,Rw0K'' \<and>
   payload_data ''iVBORw0K'' = Inr ''iVBORw0K''"
  using payload_after_first_comma [of "''data:image/png;base64''" "''iVBO,Rw0K''" "''iVBORw0K''"]
  by simp

text \<open>
  C7. No exception of class \<^verbatim>\<open>Exception\<close> raised while decoding or recognising
  leaves the handler: when the image decoder raises only such exceptions (the base64
  decoder does), the handler ends normally for every payload, and what it has emitted is
  fixed by the path taken. The split never fails; when the base64 decoder raises, or the
  image decoder raises, the handler has emitted exactly one auth-fail, without data, to
  the session; when the image decoder returns no image, it has emitted nothing; only when
  an image was decoded has it emitted auth-success. No run of the event loop records a
  crashed handler.
\<close>

theorem no_error_escapes_handler:
  assumes "\<forall>buf e. imdecode buf = Inl e \<longrightarrow> is_Exception e"
  shows "\<exists>d. payload_data s = Inr d \<and>
           snd (handle_identify_face imdecode sid s) = Inr () \<and>
           emissions (fst (handle_identify_face imdecode sid s)) =
             (case b64decode d of
                Inl e \<Rightarrow> [(''auth-fail'', None, sid)]
              | Inr buf \<Rightarrow>
                  (case imdecode (frombuffer buf) of
                     Inl e \<Rightarrow> [(''auth-fail'', None, sid)]
                   | Inr None \<Rightarrow> []
                   | Inr (Some img) \<Rightarrow> [(''auth-success'', Some user, sid)])) \<and>
           crashed (run_loop imdecode hs start) = []"
proof -
  obtain d where d: "payload_data s = Inr d"
    using payload_data_total by blast
  have "healthy start" by (simp add: healthy_def start_def)
  then have "healthy (run_loop imdecode hs start)" by (rule run_loop_healthy [OF assms])
  then have c: "crashed (run_loop imdecode hs start) = []" by (simp add: healthy_def)
  have "snd (handle_identify_face imdecode sid s) = Inr () \<and>
        emissions (fst (handle_identify_face imdecode sid s)) =
          (case b64decode d of
             Inl e \<Rightarrow> [(''auth-fail'', None, sid)]
           | Inr buf \<Rightarrow>
               (case imdecode (frombuffer buf) of
                  Inl e \<Rightarrow> [(''auth-fail'', None, sid)]
                | Inr None \<Rightarrow> []
                | Inr (Some img) \<Rightarrow> [(''auth-success'', Some user, sid)]))"
  proof (cases "b64decode d")
    case (Inl e)
    with d show ?thesis by (simp add: handle_b64_error)
  next
    case (Inr buf)
    show ?thesis
    proof (cases "imdecode (frombuffer buf)")
      case (Inl e)
      with assms have "is_Exception e" by blast
      with d Inr Inl show ?thesis by (simp add: handle_imdecode_error)
    next
      case img: (Inr img)
      show ?thesis
      proof (cases img)
        case None
        with d Inr img show ?thesis by (simp add: handle_no_image)
      next
        case (Some a)
        with d Inr img show ?thesis by (simp add: handle_valid)
      qed
    qed
  qed
  with d c show ?thesis by blast
qed

theorem no_error_escapes_handler_witness:
  "snd (handle_identify_face asserting_decoder ''s1'' ''not-valid-base64!!'') = Inr () \<and>
   emissions (fst (handle_identify_face asserting_decoder ''s1'' ''not-valid-base64!!'')) =
     [(''auth-fail'', None, ''s1'')] \<and>
   crashed (run_loop asserting_decoder [IdentifyFace ''s1'' ''not-valid-base64!!'', Wake] start) = []"
  using no_error_escapes_handler
    [OF asserting_decoder_raises_Exception, of "''not-valid-base64!!''" "''s1''"
       "[IdentifyFace ''s1'' ''not-valid-base64!!'', Wake]"]
  by (simp add: bad_payload_data bad_b64decode)

text \<open>
  C8. For every inbound identify-face event that carries a decodable image, the handler
  first sleeps for the simulated latency of 500 milliseconds and then emits auth-success
  to the originating session, with a payload whose id and name are both non-empty.
\<close>

theorem auth_success_after_latency:
  assumes "payload_data s = Inr d" and "b64decode d = Inr buf"
    and "imdecode (frombuffer buf) = Inr (Some img)"
  shows "\<exists>i n. handle_identify_face imdecode sid s =
           ([Print (Received sid), Sleep 500, Emit ''auth-success'' (Some user) sid,
             Print (SuccessSent sid n)], Inr ()) \<and>
         getitem user ''id'' = Inr i \<and> i \<noteq> [] \<and> getitem user ''name'' = Inr n \<and> n \<noteq> []"
  using assms by (simp add: handle_valid) (simp add: user_def getitem_def)

theorem auth_success_after_latency_witness:
  "\<exists>n. handle_identify_face jpeg_marker_decoder ''s1'' ''data:image/jpeg;base64,/9j/4AAQ'' =
     ([Print (Received ''s1''), Sleep 500, Emit ''auth-success'' (Some user) ''s1'',
       Print (SuccessSent ''s1'' n)], Inr ())"
  using auth_success_after_latency
    [where imdecode = jpeg_marker_decoder and sid = "''s1''",
     OF sample_payload_data sample_b64decode sample_imdecode]
  by blast

text \<open>
  C9. The result does not depend on the image: any two payloads that decode to valid
  images, on any sessions, make the handler emit the same event with the same data, the
  constant object with id p123 and the fixed three-syllable name.
\<close>

theorem result_independent_of_image:
  assumes "payload_data s1 = Inr d1" and "b64decode d1 = Inr buf1"
    and "imdecode (frombuffer buf1) = Inr (Some img1)"
    and "payload_data s2 = Inr d2" and "b64decode d2 = Inr buf2"
    and "imdecode (frombuffer buf2) = Inr (Some img2)"
  shows "map (\<lambda>(ev, data, to). (ev, data))
           (emissions (fst (handle_identify_face imdecode sid1 s1))) =
         map (\<lambda>(ev, data, to). (ev, data))
           (emissions (fst (handle_identify_face imdecode sid2 s2))) \<and>
         map (\<lambda>(ev, data, to). (ev, data))
           (emissions (fst (handle_identify_face imdecode sid1 s1))) =
           [(''auth-success'',
             Some [(''id'', ''p123''),
                   (''name'', [CHR 0xEA, CHR 0xB9, CHR 0x80, CHR 0xEC, CHR 0xB2, CHR 0xA0,
                              CHR 0xEC, CHR 0x88, CHR 0x98])])]"
  using assms by (simp add: handle_valid) (simp add: user_def)

theorem result_independent_of_image_witness:
  "map (\<lambda>(ev, data, to). (ev, data))
     (emissions (fst (handle_identify_face jpeg_marker_decoder ''s1''
        ''data:image/jpeg;base64,/9j/4AAQ''))) =
   map (\<lambda>(ev, data, to). (ev, data))
     (emissions (fst (handle_identify_face jpeg_marker_decoder ''s2'' ''/9j/2wBD'')))"
  using result_independent_of_image
    [where imdecode = jpeg_marker_decoder and ?sid1.0 = "''s1''" and ?sid2.0 = "''s2''",
     OF sample_payload_data sample_b64decode sample_imdecode
        sample2_payload_data sample2_b64decode sample2_imdecode]
  by simp

text \<open>
  C10, as first read from the handler: the empty payload is decoded to the empty buffer,
  the image decoder yields no image, and the handler returns silently. The first two
  steps hold, the third does not: the decoder's assertion raises on the empty buffer, and
  the \<^verbatim>\<open>except\<close> clause emits auth-fail.
\<close>

theorem empty_payload_not_silent:
  "payload_data '''' = Inr '''' \<and>
   b64decode '''' = Inr [] \<and>
   asserting_decoder (frombuffer []) = Inl CvError \<and>
   emissions (fst (handle_identify_face asserting_decoder ''s1'' '''')) =
     [(''auth-fail'', None, ''s1'')]"
  by (simp add: empty_payload_data empty_b64decode empty_asserting_decoder
      handle_imdecode_error
        [where imdecode = asserting_decoder,
         OF empty_payload_data empty_b64decode empty_asserting_decoder])

text \<open>
  C10, amended: the empty payload is handled without fault. It has no comma, so it is its
  own payload data, and base64 decodes it to the empty buffer. What follows is the image
  decoder's answer to the empty buffer: when it raises an exception of class
  \<^verbatim>\<open>Exception\<close> (OpenCV raises \<^verbatim>\<open>cv2.error\<close>), the handler logs it and emits
  exactly one auth-fail to the session; only when it returns no image does the handler
  return without any outbound event.
\<close>

theorem empty_payload_outcome:
  "payload_data '''' = Inr '''' \<and> b64decode '''' = Inr [] \<and>
   (\<forall>e. imdecode (frombuffer []) = Inl e \<and> is_Exception e \<longrightarrow>
      handle_identify_face imdecode sid '''' =
        ([Print (Received sid), Print (Failed e), Emit ''auth-fail'' None sid], Inr ())) \<and>
   (imdecode (frombuffer []) = Inr None \<longrightarrow>
      handle_identify_face imdecode sid '''' =
        ([Print (Received sid), Print (DecodeFailed sid)], Inr ()))"
proof -
  have raised: "handle_identify_face imdecode sid '''' =
      ([Print (Received sid), Print (Failed e), Emit ''auth-fail'' None sid], Inr ())"
    if "imdecode (frombuffer []) = Inl e" and "is_Exception e" for e
    using handle_imdecode_error
        [where imdecode = imdecode, OF empty_payload_data empty_b64decode that(1)] that(2)
    by simp
  have none: "handle_identify_face imdecode sid '''' =
      ([Print (Received sid), Print (DecodeFailed sid)], Inr ())"
    if "imdecode (frombuffer []) = Inr None"
    using handle_no_image [where imdecode = imdecode, OF empty_payload_data empty_b64decode that]
    by simp
  from raised none show ?thesis
    by (simp add: empty_payload_data empty_b64decode)
qed

theorem empty_payload_outcome_witness:
  "handle_identify_face asserting_decoder ''s2'' '''' =
     ([Print (Received ''s2''), Print (Failed CvError), Emit ''auth-fail'' None ''s2''], Inr ()) \<and>
   handle_identify_face jpeg_marker_decoder ''s2'' '''' =
     ([Print (Received ''s2''), Print (DecodeFailed ''s2'')], Inr ())"
  using empty_payload_outcome [where imdecode = asserting_decoder and sid = "''s2''"]
    empty_payload_outcome [where imdecode = jpeg_marker_decoder and sid = "''s2''"]
  by (simp add: asserting_decoder_def jpeg_marker_decoder_def frombuffer_def)

end
